theory Spec2Isabelle
  imports Complex_Main "HOL-Library.Word" "HOL-Library.Sublist"
begin

unbundle bit_operations_syntax

section \<open>German TTS: the speak-request lifecycle of \<^verbatim>\<open>german_tts.py\<close>\<close>

text \<open>
  The program is a PyQt5 form: a text field (\<^verbatim>\<open>EnterKeyTextEdit\<close>), a check box, a
  button (\<^verbatim>\<open>AnimatedButton\<close>) and a status label, all owned by \<^verbatim>\<open>TextToSpeechApp\<close>.
  Everything runs on the single thread of the Qt event loop, so the widgets are a record
  that every handler takes and returns. The collaborators (gTTS, tempfile, pygame) are
  not part of the program: their answers are the fields of an environment record, and
  every call of the program to the outside is appended to a trace in call order.
\<close>

subsection \<open>Python values\<close>

text \<open>
  A Python \<^verbatim>\<open>str\<close> is a sequence of Unicode code points, so text is a list of
  code-point numbers. File names and the language code are plain ASCII and stay
  \<^typ>\<open>string\<close>.
\<close>

type_synonym pystr = "nat list"

definition ascii :: "string \<Rightarrow> pystr" where
  "ascii cs = map of_char cs"

text \<open>
  \<^verbatim>\<open>str.isspace\<close> for one code point, as CPython's \<^verbatim>\<open>_PyUnicode_IsWhitespace\<close> lists
  them: U+0009..U+000D, U+001C..U+0020, U+0085, U+00A0, U+1680, U+2000..U+200A, U+2028,
  U+2029, U+202F, U+205F, U+3000.
\<close>

definition py_isspace :: "nat \<Rightarrow> bool" where
  "py_isspace c \<longleftrightarrow>
     (9 \<le> c \<and> c \<le> 13) \<or> (28 \<le> c \<and> c \<le> 32) \<or> c = 133 \<or> c = 160 \<or> c = 5760 \<or>
     (8192 \<le> c \<and> c \<le> 8202) \<or> c = 8232 \<or> c = 8233 \<or> c = 8239 \<or> c = 8287 \<or> c = 12288"

text \<open>\<^verbatim>\<open>str.strip()\<close> with no argument: whitespace is removed from both ends.\<close>

definition strip :: "pystr \<Rightarrow> pystr" where
  "strip t = rev (dropWhile py_isspace (rev (dropWhile py_isspace t)))"

text \<open>
  A Python \<^verbatim>\<open>float\<close> is taken as the rational number it denotes, and the product
  \<^verbatim>\<open>x * 1000\<close> as the exact product: the rounding of the product to the nearest double
  is left out. \<^verbatim>\<open>int(x)\<close> truncates towards zero.
\<close>

type_synonym pyfloat = rat

definition py_int :: "pyfloat \<Rightarrow> int" where
  "py_int x = (if 0 \<le> x then \<lfloor>x\<rfloor> else \<lceil>x\<rceil>)"

text \<open>The exceptions the collaborators raise; the program catches none of them.\<close>

datatype exn = GTTSError | OSError | PygameError | AssertionError | ValueError

datatype outcome = Returned | Raised exn

subsection \<open>Widgets and application state\<close>

text \<open>
  A key event carries \<^verbatim>\<open>key()\<close> and the flag word \<^verbatim>\<open>modifiers()\<close>. The constants are
  Qt's: \<^verbatim>\<open>Key_Return = 0x01000004\<close>, \<^verbatim>\<open>Key_Enter = 0x01000005\<close>,
  \<^verbatim>\<open>ShiftModifier = 0x02000000\<close>.
\<close>

record key_event =
  key :: int
  modifiers :: "32 word"

definition Key_Return :: int where "Key_Return = 16777220"
definition Key_Enter :: int where "Key_Enter = 16777221"
definition ShiftModifier :: "32 word" where "ShiftModifier = 33554432"

text \<open>
  The text field: its plain text and the cursor, which is a position and an anchor
  (they differ when there is a selection).
\<close>

record text_edit =
  plain_text :: pystr
  cursor_position :: nat
  cursor_anchor :: nat

text \<open>
  The style sheet of the button is one of two texts: the constant of
  \<^verbatim>\<open>default_style()\<close>, or the f-string of \<^verbatim>\<open>set_opacity\<close>, which is determined by the
  opacity value it interpolates.
\<close>

datatype style_sheet = DefaultStyle | RgbaStyle pyfloat

record animated_button =
  disabled :: bool
  animation_running :: bool
  opacity :: pyfloat
  styleSheet :: style_sheet

text \<open>
  The two closures handed to \<^verbatim>\<open>QTimer.singleShot\<close>: \<^verbatim>\<open>done_speaking\<close>, and
  \<^verbatim>\<open>lambda: os.remove(temp_path)\<close> with the path it captured.
\<close>

datatype callback = DoneSpeaking | RemoveFile string

text \<open>The object \<^verbatim>\<open>gTTS(text=..., lang=..., slow=...)\<close> builds.\<close>

record gtts =
  gtts_text :: pystr
  gtts_lang :: string
  gtts_slow :: bool

text \<open>The calls the program makes on its widgets and collaborators, as the trace records them.\<close>

datatype effect =
    SetDisabled bool
  | AnimationStart
  | AnimationStop
  | SetStyleSheet style_sheet
  | StatusSetText pystr
  | GTTS gtts
  | NamedTemporaryFile string
  | Save gtts string
  | MusicLoad string
  | MusicPlay
  | SoundGetLength string
  | SingleShot int callback
  | OsRemove string

record app =
  text_edit :: text_edit
  slow_checkbox :: bool
  button :: animated_button
  status_label :: pystr
  timers :: "(int \<times> callback) list"
  files :: "string set"
  trace :: "effect list"

text \<open>
  What the collaborators answer during one handler: \<^verbatim>\<open>gTTS(...)\<close> may raise;
  \<^verbatim>\<open>NamedTemporaryFile(delete=False, suffix=...)\<close> raises or creates a file and gives
  its name; \<^verbatim>\<open>tts.save\<close>, \<^verbatim>\<open>music.load\<close> and \<^verbatim>\<open>music.play\<close> may raise;
  \<^verbatim>\<open>Sound(path).get_length()\<close> raises or gives the length in seconds;
  \<^verbatim>\<open>QTextEdit.keyPressEvent\<close> is the default key handling of the text field.
\<close>

record env =
  gtts_init :: "gtts \<Rightarrow> exn option"
  named_temporary_file :: "string \<Rightarrow> exn + string"
  tts_save :: "gtts \<Rightarrow> string \<Rightarrow> exn option"
  music_load :: "string \<Rightarrow> exn option"
  music_play :: "exn option"
  sound_get_length :: "string \<Rightarrow> exn + pyfloat"
  qtextedit_keyPressEvent :: "key_event \<Rightarrow> text_edit \<Rightarrow> text_edit"

definition emit :: "effect \<Rightarrow> app \<Rightarrow> app" where
  "emit e s = s\<lparr>trace := trace s @ [e]\<rparr>"

subsection \<open>AnimatedButton\<close>

definition setDisabled :: "bool \<Rightarrow> app \<Rightarrow> app" where
  "setDisabled b s = emit (SetDisabled b) (s\<lparr>button := (button s)\<lparr>disabled := b\<rparr>\<rparr>)"

definition setStyleSheet :: "style_sheet \<Rightarrow> app \<Rightarrow> app" where
  "setStyleSheet st s = emit (SetStyleSheet st) (s\<lparr>button := (button s)\<lparr>styleSheet := st\<rparr>\<rparr>)"

definition start_animation :: "app \<Rightarrow> app" where
  "start_animation s = emit AnimationStart (s\<lparr>button := (button s)\<lparr>animation_running := True\<rparr>\<rparr>)"

definition default_style :: style_sheet where
  "default_style = DefaultStyle"

definition stop_animation :: "app \<Rightarrow> app" where
  "stop_animation s =
     (let s1 = emit AnimationStop (s\<lparr>button := (button s)\<lparr>animation_running := False\<rparr>\<rparr>)
      in setStyleSheet default_style s1)"

text \<open>
  \<^verbatim>\<open>set_opacity\<close> is the setter of the animated property; the local \<^verbatim>\<open>bg_opacity\<close> it
  computes is never used.
\<close>

definition set_opacity :: "pyfloat \<Rightarrow> app \<Rightarrow> app" where
  "set_opacity v s = setStyleSheet (RgbaStyle v) (s\<lparr>button := (button s)\<lparr>opacity := v\<rparr>\<rparr>)"

subsection \<open>Status label and timers\<close>

definition status_setText :: "pystr \<Rightarrow> app \<Rightarrow> app" where
  "status_setText t s = emit (StatusSetText t) (s\<lparr>status_label := t\<rparr>)"

text \<open>
  \<^verbatim>\<open>QTimer.singleShot(ms, f)\<close> queues the callback with its delay; nothing runs before
  the handler has returned to the event loop.
\<close>

definition singleShot :: "int \<Rightarrow> callback \<Rightarrow> app \<Rightarrow> app" where
  "singleShot ms cb s = emit (SingleShot ms cb) (s\<lparr>timers := timers s @ [(ms, cb)]\<rparr>)"

definition speaking_text :: pystr where
  "speaking_text = 128266 # ascii '' Speaking...''"

subsection \<open>TextToSpeechApp.text_to_speech\<close>

text \<open>The closure \<^verbatim>\<open>done_speaking\<close> (lines 169 to 172).\<close>

definition done_speaking :: "app \<Rightarrow> app" where
  "done_speaking s = status_setText [] (stop_animation (setDisabled False s))"

text \<open>
  The body of the \<^verbatim>\<open>try\<close> (lines 175 to 181). A call is traced when it is made; when it
  raises, the rest of the body is skipped.
\<close>

definition try_body :: "env \<Rightarrow> gtts \<Rightarrow> string \<Rightarrow> app \<Rightarrow> outcome \<times> app" where
  "try_body env tts temp_path s =
     (let s1 = emit (Save tts temp_path) s in
      case tts_save env tts temp_path of
        Some e \<Rightarrow> (Raised e, s1)
      | None \<Rightarrow>
          let s2 = emit (MusicLoad temp_path) s1 in
          (case music_load env temp_path of
             Some e \<Rightarrow> (Raised e, s2)
           | None \<Rightarrow>
               let s3 = emit MusicPlay s2 in
               (case music_play env of
                  Some e \<Rightarrow> (Raised e, s3)
                | None \<Rightarrow>
                    let s4 = emit (SoundGetLength temp_path) s3 in
                    (case sound_get_length env temp_path of
                       Inl e \<Rightarrow> (Raised e, s4)
                     | Inr len \<Rightarrow>
                         let duration_ms = py_int (len * 1000)
                         in (Returned, singleShot duration_ms DoneSpeaking s4)))))"

text \<open>
  The whole handler (lines 149 to 185). The \<^verbatim>\<open>finally\<close> clause runs after the body
  whether it returned or raised, and the outcome of the body is then the outcome of the
  handler. \<^verbatim>\<open>gTTS(...)\<close> and \<^verbatim>\<open>NamedTemporaryFile\<close> are called before the \<^verbatim>\<open>try\<close>.
\<close>

definition text_to_speech :: "env \<Rightarrow> app \<Rightarrow> outcome \<times> app" where
  "text_to_speech env s =
     (let text = strip (plain_text (text_edit s));
          slow_checked = slow_checkbox s
      in if text = [] then (Returned, s)
         else
           let s1 = setDisabled True s;
               s2 = start_animation s1;
               s3 = status_setText speaking_text s2;
               tts = \<lparr>gtts_text = text, gtts_lang = ''de'', gtts_slow = slow_checked\<rparr>;
               s4 = emit (GTTS tts) s3
           in case gtts_init env tts of
                Some e \<Rightarrow> (Raised e, s4)
              | None \<Rightarrow>
                  let s5 = emit (NamedTemporaryFile ''.mp3'') s4 in
                  (case named_temporary_file env ''.mp3'' of
                     Inl e \<Rightarrow> (Raised e, s5)
                   | Inr temp_path \<Rightarrow>
                       let s6 = s5\<lparr>files := insert temp_path (files s5)\<rparr>;
                           (r, s7) = try_body env tts temp_path s6
                       in (r, singleShot 1500 (RemoveFile temp_path) s7)))"

subsection \<open>EnterKeyTextEdit\<close>

text \<open>
  \<^verbatim>\<open>insertPlainText\<close> replaces the selection (the text between anchor and position; empty
  when they coincide) by the given text and leaves the cursor behind it.
\<close>

definition insertPlainText :: "pystr \<Rightarrow> text_edit \<Rightarrow> text_edit" where
  "insertPlainText t e =
     (let lo = min (cursor_position e) (cursor_anchor e);
          hi = max (cursor_position e) (cursor_anchor e)
      in \<lparr>plain_text = take lo (plain_text e) @ t @ drop hi (plain_text e),
          cursor_position = lo + length t,
          cursor_anchor = lo + length t\<rparr>)"

text \<open>
  \<^verbatim>\<open>keyPressEvent\<close> (lines 21 to 31). The field \<^verbatim>\<open>on_enter_pressed\<close> is \<^verbatim>\<open>None\<close> or a
  callable, and \<^verbatim>\<open>super().keyPressEvent\<close> is the handler of the base class; both are
  arguments here. The flags object \<^verbatim>\<open>modifiers() & ShiftModifier\<close> is true when it is
  not zero.
\<close>

definition keyPressEvent ::
  "(app \<Rightarrow> outcome \<times> app) option \<Rightarrow> (key_event \<Rightarrow> app \<Rightarrow> outcome \<times> app) \<Rightarrow>
   key_event \<Rightarrow> app \<Rightarrow> outcome \<times> app" where
  "keyPressEvent on_enter_pressed super_keyPressEvent event s =
     (if key event = Key_Return \<or> key event = Key_Enter then
        (if modifiers event AND ShiftModifier \<noteq> 0 then
           (Returned, s\<lparr>text_edit := insertPlainText [10] (text_edit s)\<rparr>)
         else
           (case on_enter_pressed of
              None \<Rightarrow> (Returned, s)
            | Some f \<Rightarrow> f s))
      else super_keyPressEvent event s)"

subsection \<open>The wiring of \<^verbatim>\<open>__init__\<close> and the event loop\<close>

definition super_keyPressEvent :: "env \<Rightarrow> key_event \<Rightarrow> app \<Rightarrow> outcome \<times> app" where
  "super_keyPressEvent env event s =
     (Returned, s\<lparr>text_edit := qtextedit_keyPressEvent env event (text_edit s)\<rparr>)"

text \<open>
  The text field is built with \<^verbatim>\<open>on_enter_pressed=self.text_to_speech\<close> (line 109).
\<close>

definition text_edit_keyPressEvent :: "env \<Rightarrow> key_event \<Rightarrow> app \<Rightarrow> outcome \<times> app" where
  "text_edit_keyPressEvent env event s =
     keyPressEvent (Some (text_to_speech env)) (super_keyPressEvent env) event s"

text \<open>
  \<^verbatim>\<open>self.button.clicked.connect(self.text_to_speech)\<close> (line 135): Qt delivers no click
  to a disabled button, so the signal is emitted only when the button is enabled.
\<close>

definition button_click :: "env \<Rightarrow> app \<Rightarrow> outcome \<times> app" where
  "button_click env s = (if disabled (button s) then (Returned, s) else text_to_speech env s)"

text \<open>
  A timer that fires runs its callback. \<^verbatim>\<open>os.remove\<close> raises when the file is not
  there.
\<close>

definition run_callback :: "callback \<Rightarrow> app \<Rightarrow> outcome \<times> app" where
  "run_callback cb s =
     (case cb of
        DoneSpeaking \<Rightarrow> (Returned, done_speaking s)
      | RemoveFile p \<Rightarrow>
          (let s1 = emit (OsRemove p) s
           in if p \<in> files s then (Returned, s1\<lparr>files := files s - {p}\<rparr>)
              else (Raised OSError, s1)))"


text \<open>The window as \<^verbatim>\<open>__init__\<close> leaves it: empty field, check box ticked, button enabled.\<close>

definition init_app :: app where
  "init_app =
     \<lparr>text_edit = \<lparr>plain_text = [], cursor_position = 0, cursor_anchor = 0\<rparr>,
      slow_checkbox = True,
      button = \<lparr>disabled = False, animation_running = False, opacity = 1, styleSheet = DefaultStyle\<rparr>,
      status_label = [],
      timers = [],
      files = {},
      trace = []\<rparr>"

subsection \<open>Observing one run of the handler\<close>

text \<open>
  The calls one run of \<^const>\<open>text_to_speech\<close> makes are the part of the trace it appends,
  and the timers it schedules are the part of the queue it appends.
\<close>

definition effects_of :: "env \<Rightarrow> app \<Rightarrow> effect list" where
  "effects_of env s = drop (length (trace s)) (trace (snd (text_to_speech env s)))"

definition scheduled_by :: "env \<Rightarrow> app \<Rightarrow> (int \<times> callback) list" where
  "scheduled_by env s = drop (length (timers s)) (timers (snd (text_to_speech env s)))"

text \<open>The arguments of line 165, read off the widgets when the handler starts.\<close>

definition request_of :: "app \<Rightarrow> gtts" where
  "request_of s =
     \<lparr>gtts_text = strip (plain_text (text_edit s)), gtts_lang = ''de'', gtts_slow = slow_checkbox s\<rparr>"

text \<open>The \<^verbatim>\<open>gTTS(...)\<close> objects built and the \<^verbatim>\<open>tts.save\<close> calls made in a list of calls.\<close>

fun requested :: "effect \<Rightarrow> gtts list" where
  "requested (GTTS t) = [t]"
| "requested _ = []"

definition synthesis_requests :: "effect list \<Rightarrow> gtts list" where
  "synthesis_requests es = concat (map requested es)"

fun saved :: "effect \<Rightarrow> (gtts \<times> string) list" where
  "saved (Save t p) = [(t, p)]"
| "saved _ = []"

definition save_calls :: "effect list \<Rightarrow> (gtts \<times> string) list" where
  "save_calls es = concat (map saved es)"

text \<open>
  The order of side effects as the specification lists it (section 4.2, steps 1 to 6), at
  the granularity of the calls: step 1 is the first three calls, step 2 the request
  object, step 3 the scratch file and the save into it, step 4 load and play, step 5 the
  measured length and the completion timer, step 6 the deletion timer.
\<close>

definition side_effects_in_order :: "gtts \<Rightarrow> string \<Rightarrow> int \<Rightarrow> effect list" where
  "side_effects_in_order tts p d =
     [SetDisabled True, AnimationStart, StatusSetText speaking_text,
      GTTS tts,
      NamedTemporaryFile ''.mp3'', Save tts p,
      MusicLoad p, MusicPlay,
      SoundGetLength p, SingleShot d DoneSpeaking,
      SingleShot 1500 (RemoveFile p)]"

subsection \<open>Example inputs\<close>

text \<open>
  An environment in which every collaborator succeeds: the scratch file gets the given
  name and the audio has the given length in seconds. Its default key handling types the
  key's code point at the cursor.
\<close>

definition ok_env :: "string \<Rightarrow> pyfloat \<Rightarrow> env" where
  "ok_env path len =
     \<lparr>gtts_init = (\<lambda>_. None),
      named_temporary_file = (\<lambda>_. Inr path),
      tts_save = (\<lambda>_ _. None),
      music_load = (\<lambda>_. None),
      music_play = None,
      sound_get_length = (\<lambda>_. Inr len),
      qtextedit_keyPressEvent = (\<lambda>ev. insertPlainText [nat (key ev)])\<rparr>"

text \<open>The same, except that \<^verbatim>\<open>tts.save\<close> raises (the service cannot be reached).\<close>

definition save_fails_env :: "string \<Rightarrow> env" where
  "save_fails_env path = (ok_env path 0)\<lparr>tts_save := (\<lambda>_ _. Some GTTSError)\<rparr>"

text \<open>The fresh window with \<^verbatim>\<open>Hallo\<close> typed into the field, and with blanks only.\<close>

definition hallo_app :: app where
  "hallo_app =
     init_app\<lparr>text_edit := \<lparr>plain_text = ascii ''Hallo'', cursor_position = 5, cursor_anchor = 5\<rparr>\<rparr>"

definition blank_app :: app where
  "blank_app =
     init_app\<lparr>text_edit := \<lparr>plain_text = [32, 9, 10, 32], cursor_position = 4, cursor_anchor = 4\<rparr>\<rparr>"

text \<open>
  The window after one click on the button of \<^const>\<open>hallo_app\<close>: the audio is playing.
  The same window a moment later, when the animation has set the opacity to 0.3.
\<close>

definition speaking_app :: app where
  "speaking_app = snd (button_click (ok_env ''/tmp/a.mp3'' (5 / 2)) hallo_app)"

definition pulsing_app :: app where
  "pulsing_app = set_opacity (3 / 10) speaking_app"

definition plain_return :: key_event where
  "plain_return = \<lparr>key = Key_Return, modifiers = 0\<rparr>"

definition shift_return :: key_event where
  "shift_return = \<lparr>key = Key_Return, modifiers = ShiftModifier\<rparr>"

definition letter_a :: key_event where
  "letter_a = \<lparr>key = 65, modifiers = 0\<rparr>"

section \<open>Properties\<close>

lemmas widget_defs = emit_def setDisabled_def setStyleSheet_def start_animation_def
  stop_animation_def status_setText_def singleShot_def default_style_def

lemmas run_defs = text_to_speech_def try_body_def Let_def widget_defs

subsection \<open>Whitespace\<close>

lemma dropWhile_all_conv: "(\<forall>x\<in>set (dropWhile P t). P x) \<longleftrightarrow> dropWhile P t = []"
proof
  assume all: "\<forall>x\<in>set (dropWhile P t). P x"
  show "dropWhile P t = []"
  proof (rule ccontr)
    assume ne: "dropWhile P t \<noteq> []"
    then have "\<not> P (hd (dropWhile P t))" by (rule hd_dropWhile)
    moreover have "hd (dropWhile P t) \<in> set (dropWhile P t)" using ne by (rule hd_in_set)
    ultimately show False using all by blast
  qed
next
  assume "dropWhile P t = []"
  then show "\<forall>x\<in>set (dropWhile P t). P x" by (simp only: list.set ball_empty)
qed

lemma strip_empty_iff: "strip t = [] \<longleftrightarrow> (\<forall>c\<in>set t. py_isspace c)"
proof -
  have "strip t = [] \<longleftrightarrow> (\<forall>x\<in>set (dropWhile py_isspace t). py_isspace x)"
    unfolding strip_def by simp
  also have "\<dots> \<longleftrightarrow> dropWhile py_isspace t = []" by (rule dropWhile_all_conv)
  also have "\<dots> \<longleftrightarrow> (\<forall>c\<in>set t. py_isspace c)" by simp
  finally show ?thesis .
qed

subsection \<open>What a run leaves alone\<close>

lemma text_edit_unchanged: "text_edit (snd (text_to_speech env s)) = text_edit s"
  by (simp add: run_defs split: option.splits sum.splits prod.splits)

lemma trace_extended: "trace (snd (text_to_speech env s)) = trace s @ effects_of env s"
  by (simp add: effects_of_def run_defs split: option.splits sum.splits prod.splits)

lemma timers_extended: "timers (snd (text_to_speech env s)) = timers s @ scheduled_by env s"
  by (simp add: scheduled_by_def run_defs split: option.splits sum.splits prod.splits)

text \<open>
  The runs that reach \<^verbatim>\<open>tts.save\<close> are those with non-blank text in which the request
  object and the scratch file were created.
\<close>

lemma reaches_save_iff:
  "(\<exists>t p. Save t p \<in> set (effects_of env s)) \<longleftrightarrow>
     strip (plain_text (text_edit s)) \<noteq> [] \<and> gtts_init env (request_of s) = None \<and>
     (\<exists>p. named_temporary_file env ''.mp3'' = Inr p)"
  by (auto simp add: effects_of_def request_of_def run_defs
        split: option.splits sum.splits prod.splits if_splits)

lemma click_blocked_while_disabled: "disabled (button s) \<Longrightarrow> button_click env s = (Returned, s)"
  by (simp add: button_click_def)

subsection \<open>The example runs\<close>

lemma hallo_strip: "strip (plain_text (text_edit hallo_app)) = ascii ''Hallo''"
  by (simp add: hallo_app_def init_app_def strip_def ascii_def py_isspace_def)

lemma hallo_nonblank: "strip (plain_text (text_edit hallo_app)) \<noteq> []"
  by (simp add: hallo_strip ascii_def)

lemma hallo_request:
  "request_of hallo_app = \<lparr>gtts_text = ascii ''Hallo'', gtts_lang = ''de'', gtts_slow = True\<rparr>"
  by (simp add: request_of_def hallo_strip) (simp add: hallo_app_def init_app_def)

lemma hallo_fresh: "trace hallo_app = []" "timers hallo_app = []"
  by (simp_all add: hallo_app_def init_app_def)

lemma hallo_ok:
  "text_to_speech (ok_env p len) hallo_app = (Returned,
     hallo_app\<lparr>button := (button hallo_app)\<lparr>disabled := True, animation_running := True\<rparr>,
       status_label := speaking_text,
       timers := [(py_int (len * 1000), DoneSpeaking), (1500, RemoveFile p)],
       files := {p},
       trace := side_effects_in_order (request_of hallo_app) p (py_int (len * 1000))\<rparr>)"
  by (simp add: hallo_request side_effects_in_order_def run_defs hallo_strip ok_env_def)
     (simp add: hallo_app_def init_app_def ascii_def)

lemma hallo_save_fails:
  "text_to_speech (save_fails_env p) hallo_app = (Raised GTTSError,
     hallo_app\<lparr>button := (button hallo_app)\<lparr>disabled := True, animation_running := True\<rparr>,
       status_label := speaking_text,
       timers := [(1500, RemoveFile p)],
       files := {p},
       trace := take 6 (side_effects_in_order (request_of hallo_app) p 0) @
                [SingleShot 1500 (RemoveFile p)]\<rparr>)"
  by (simp add: hallo_request side_effects_in_order_def run_defs hallo_strip ok_env_def
        save_fails_env_def)
     (simp add: hallo_app_def init_app_def ascii_def)

lemma hallo_effects_ok:
  "effects_of (ok_env p len) hallo_app =
     side_effects_in_order (request_of hallo_app) p (py_int (len * 1000))"
  by (simp add: effects_of_def hallo_ok hallo_fresh)

lemma hallo_scheduled_ok:
  "scheduled_by (ok_env p len) hallo_app = [(py_int (len * 1000), DoneSpeaking), (1500, RemoveFile p)]"
  by (simp add: scheduled_by_def hallo_ok hallo_fresh)

lemma hallo_effects_fail:
  "effects_of (save_fails_env p) hallo_app =
     take 6 (side_effects_in_order (request_of hallo_app) p 0) @ [SingleShot 1500 (RemoveFile p)]"
  by (simp add: effects_of_def hallo_save_fails hallo_fresh)

lemma hallo_scheduled_fail: "scheduled_by (save_fails_env p) hallo_app = [(1500, RemoveFile p)]"
  by (simp add: scheduled_by_def hallo_save_fails hallo_fresh)

lemma speaking_app_eq:
  "speaking_app =
     \<lparr>text_edit = \<lparr>plain_text = ascii ''Hallo'', cursor_position = 5, cursor_anchor = 5\<rparr>,
      slow_checkbox = True,
      button = \<lparr>disabled = True, animation_running = True, opacity = 1, styleSheet = DefaultStyle\<rparr>,
      status_label = speaking_text,
      timers = [(2500, DoneSpeaking), (1500, RemoveFile ''/tmp/a.mp3'')],
      files = {''/tmp/a.mp3''},
      trace = side_effects_in_order \<lparr>gtts_text = ascii ''Hallo'', gtts_lang = ''de'', gtts_slow = True\<rparr>
                ''/tmp/a.mp3'' 2500\<rparr>"
  by (simp add: speaking_app_def button_click_def hallo_ok hallo_request py_int_def)
     (simp add: hallo_app_def init_app_def)

subsection \<open>Blank input\<close>

text \<open>
  Claim C2. When the text of the field is empty or consists of whitespace only, the handler
  returns at line 154 without raising and leaves the whole window as it was: button,
  status label, timers and files are untouched, no call is traced and no timer is
  scheduled. The same holds when the handler is reached through a click or through a
  plain Enter key.
\<close>

theorem blank_submit_is_noop:
  "\<forall>c\<in>set (plain_text (text_edit s)). py_isspace c \<Longrightarrow>
     text_to_speech env s = (Returned, s) \<and>
     effects_of env s = [] \<and>
     scheduled_by env s = [] \<and>
     button_click env s = (Returned, s) \<and>
     text_edit_keyPressEvent env \<lparr>key = Key_Return, modifiers = 0\<rparr> s = (Returned, s)"
  by (simp add: text_to_speech_def strip_empty_iff effects_of_def scheduled_by_def
        button_click_def text_edit_keyPressEvent_def keyPressEvent_def)

theorem blank_submit_is_noop_witness:
  "list_all py_isspace (plain_text (text_edit blank_app)) \<and>
   plain_text (text_edit blank_app) \<noteq> [] \<and>
   text_to_speech (ok_env ''/tmp/a.mp3'' 1) blank_app = (Returned, blank_app) \<and>
   effects_of (ok_env ''/tmp/a.mp3'' 1) blank_app = [] \<and>
   scheduled_by (ok_env ''/tmp/a.mp3'' 1) blank_app = []"
proof -
  have h: "\<forall>c\<in>set (plain_text (text_edit blank_app)). py_isspace c"
    by (simp add: blank_app_def init_app_def py_isspace_def)
  have t: "plain_text (text_edit blank_app) \<noteq> []"
    by (simp add: blank_app_def init_app_def)
  show ?thesis
    using h t blank_submit_is_noop [OF h, of "ok_env ''/tmp/a.mp3'' 1"]
    by (simp add: list_all_iff)
qed

subsection \<open>The completion callback\<close>

text \<open>
  Claim C8. The completion callback \<^verbatim>\<open>done_speaking\<close> enables the button again, stops the
  animation and puts the default style sheet back, and clears the status label. It
  changes nothing else (text field, check box, opacity value, timers and files stay),
  and it returns without raising.
\<close>

theorem done_speaking_resets:
  "done_speaking s =
     s\<lparr>button := (button s)\<lparr>disabled := False, animation_running := False,
                             styleSheet := DefaultStyle\<rparr>,
       status_label := [],
       trace := trace s @ [SetDisabled False, AnimationStop, SetStyleSheet DefaultStyle,
                           StatusSetText []]\<rparr> \<and>
   run_callback DoneSpeaking s = (Returned, done_speaking s)"
  by (simp add: done_speaking_def widget_defs run_callback_def)

theorem done_speaking_resets_witness:
  "button (done_speaking pulsing_app) =
     \<lparr>disabled = False, animation_running = False, opacity = 3 / 10, styleSheet = DefaultStyle\<rparr> \<and>
   styleSheet (button pulsing_app) = RgbaStyle (3 / 10) \<and>
   status_label (done_speaking pulsing_app) = [] \<and>
   timers (done_speaking pulsing_app) = timers speaking_app"
  using done_speaking_resets [of pulsing_app]
  by (simp add: pulsing_app_def set_opacity_def setStyleSheet_def emit_def speaking_app_eq)

subsection \<open>Key routing\<close>

text \<open>
  Claim C6. For every key event of the text field: Return or Enter with Shift inserts one
  newline at the cursor and does nothing else, whatever the submit callback is (so the
  callback is not invoked and the base handler is not reached); Return or Enter without
  Shift runs the submit callback once on the unchanged window and nothing else, and the
  submit handler of the application leaves the text field as it was (no newline); every
  other key goes to the base handler alone. With no selection, inserting the newline
  puts it at the cursor position and makes the text one newline longer.
\<close>

theorem keyPressEvent_routing:
  "((key ev = Key_Return \<or> key ev = Key_Enter) \<and> modifiers ev AND ShiftModifier \<noteq> 0 \<longrightarrow>
      keyPressEvent (Some f) base ev s =
        (Returned, s\<lparr>text_edit := insertPlainText [10] (text_edit s)\<rparr>) \<and>
      text_edit_keyPressEvent env ev s =
        (Returned, s\<lparr>text_edit := insertPlainText [10] (text_edit s)\<rparr>)) \<and>
   ((key ev = Key_Return \<or> key ev = Key_Enter) \<and> modifiers ev AND ShiftModifier = 0 \<longrightarrow>
      keyPressEvent (Some f) base ev s = f s \<and>
      text_edit_keyPressEvent env ev s = text_to_speech env s \<and>
      text_edit (snd (text_edit_keyPressEvent env ev s)) = text_edit s) \<and>
   (key ev \<noteq> Key_Return \<and> key ev \<noteq> Key_Enter \<longrightarrow>
      keyPressEvent (Some f) base ev s = base ev s \<and>
      text_edit_keyPressEvent env ev s =
        (Returned, s\<lparr>text_edit := qtextedit_keyPressEvent env ev (text_edit s)\<rparr>)) \<and>
   (cursor_anchor e = cursor_position e \<and> cursor_position e \<le> length (plain_text e) \<longrightarrow>
      plain_text (insertPlainText [10] e) =
        take (cursor_position e) (plain_text e) @ [10] @ drop (cursor_position e) (plain_text e) \<and>
      count_list (plain_text (insertPlainText [10] e)) 10 = count_list (plain_text e) 10 + 1 \<and>
      length (plain_text (insertPlainText [10] e)) = length (plain_text e) + 1)"
proof -
  have cnt: "count_list (take n xs) a + count_list (drop n xs) a = count_list xs a"
    for n and xs :: "nat list" and a
  proof -
    have "count_list (take n xs) a + count_list (drop n xs) a =
          count_list (take n xs @ drop n xs) a"
      by (simp only: count_list_append)
    also have "\<dots> = count_list xs a"
      by (simp only: append_take_drop_id)
    finally show ?thesis .
  qed
  show ?thesis
    by (simp add: keyPressEvent_def text_edit_keyPressEvent_def super_keyPressEvent_def
        text_edit_unchanged insertPlainText_def Let_def cnt)
qed

theorem keyPressEvent_routing_witness:
  "text_edit_keyPressEvent (ok_env ''/tmp/a.mp3'' 1) shift_return hallo_app =
     (Returned, hallo_app\<lparr>text_edit :=
        \<lparr>plain_text = ascii ''Hallo'' @ [10], cursor_position = 6, cursor_anchor = 6\<rparr>\<rparr>) \<and>
   text_edit_keyPressEvent (ok_env ''/tmp/a.mp3'' 1) plain_return hallo_app =
     text_to_speech (ok_env ''/tmp/a.mp3'' 1) hallo_app \<and>
   text_edit_keyPressEvent (ok_env ''/tmp/a.mp3'' 1) letter_a hallo_app =
     (Returned, hallo_app\<lparr>text_edit :=
        \<lparr>plain_text = ascii ''HalloA'', cursor_position = 6, cursor_anchor = 6\<rparr>\<rparr>)"
  using
    keyPressEvent_routing [of shift_return "text_to_speech (ok_env ''/tmp/a.mp3'' 1)"
      "super_keyPressEvent (ok_env ''/tmp/a.mp3'' 1)" hallo_app "ok_env ''/tmp/a.mp3'' 1"
      "text_edit hallo_app"]
    keyPressEvent_routing [of plain_return "text_to_speech (ok_env ''/tmp/a.mp3'' 1)"
      "super_keyPressEvent (ok_env ''/tmp/a.mp3'' 1)" hallo_app "ok_env ''/tmp/a.mp3'' 1"
      "text_edit hallo_app"]
    keyPressEvent_routing [of letter_a "text_to_speech (ok_env ''/tmp/a.mp3'' 1)"
      "super_keyPressEvent (ok_env ''/tmp/a.mp3'' 1)" hallo_app "ok_env ''/tmp/a.mp3'' 1"
      "text_edit hallo_app"]
  by (simp add: shift_return_def plain_return_def letter_a_def Key_Return_def Key_Enter_def
        ShiftModifier_def hallo_app_def init_app_def insertPlainText_def ascii_def ok_env_def)

subsection \<open>The synthesis request\<close>

text \<open>
  Claim C9. A run with non-blank text builds exactly one \<^verbatim>\<open>gTTS\<close> request object. It
  carries the stripped text of the field unchanged, the language code \<^verbatim>\<open>de\<close>, and as
  its slow flag the state the check box has when the handler starts; the flag is a
  Boolean. The request is sent to the service (\<^verbatim>\<open>tts.save\<close>) at most once, and then it is
  this object that is sent.
\<close>

theorem one_synthesis_request:
  "strip (plain_text (text_edit s)) \<noteq> [] \<Longrightarrow>
     synthesis_requests (effects_of env s) = [request_of s] \<and>
     (save_calls (effects_of env s) = [] \<or>
      (\<exists>p. save_calls (effects_of env s) = [(request_of s, p)]))"
  by (simp add: effects_of_def request_of_def synthesis_requests_def save_calls_def run_defs
        split: option.splits sum.splits prod.splits)

theorem one_synthesis_request_witness:
  "strip (plain_text (text_edit hallo_app)) \<noteq> [] \<and>
   synthesis_requests (effects_of (ok_env ''/tmp/a.mp3'' (5 / 2)) hallo_app) =
     [\<lparr>gtts_text = ascii ''Hallo'', gtts_lang = ''de'', gtts_slow = True\<rparr>] \<and>
   save_calls (effects_of (ok_env ''/tmp/a.mp3'' (5 / 2)) hallo_app) =
     [(\<lparr>gtts_text = ascii ''Hallo'', gtts_lang = ''de'', gtts_slow = True\<rparr>, ''/tmp/a.mp3'')]"
  using hallo_nonblank
    one_synthesis_request [OF hallo_nonblank, of "ok_env ''/tmp/a.mp3'' (5 / 2)"]
  by (simp add: hallo_effects_ok hallo_request side_effects_in_order_def save_calls_def)

subsection \<open>Order of the side effects\<close>



subsection \<open>The two timers\<close>



text \<open>
  Claim C4. Once a run has reached the synthesis step, that is the call \<^verbatim>\<open>tts.save\<close> of
  line 175, which asks the service for the audio and writes it to the scratch file, it
  schedules exactly one deletion of that file, with the delay 1500, as its last call.
  The delay is the same whatever the length measurement answers, a length or an error.
\<close>

theorem deletion_delay_is_fixed:
  "Save t p \<in> set (effects_of env s) \<Longrightarrow>
     [x \<leftarrow> scheduled_by env s. snd x \<noteq> DoneSpeaking] = [(1500, RemoveFile p)] \<and>
     last (effects_of env s) = SingleShot 1500 (RemoveFile p) \<and>
     (\<forall>g. [x \<leftarrow> scheduled_by (env\<lparr>sound_get_length := g\<rparr>) s. snd x \<noteq> DoneSpeaking] =
            [(1500, RemoveFile p)])"
  by (auto simp add: effects_of_def scheduled_by_def run_defs
        split: option.splits sum.splits prod.splits if_splits)

theorem deletion_delay_is_fixed_witness:
  "Save (request_of hallo_app) ''/tmp/a.mp3'' \<in>
     set (effects_of (ok_env ''/tmp/a.mp3'' (5 / 2)) hallo_app) \<and>
   [x \<leftarrow> scheduled_by (ok_env ''/tmp/a.mp3'' (5 / 2)) hallo_app. snd x \<noteq> DoneSpeaking] =
     [(1500, RemoveFile ''/tmp/a.mp3'')] \<and>
   [x \<leftarrow> scheduled_by (ok_env ''/tmp/a.mp3'' 60) hallo_app. snd x \<noteq> DoneSpeaking] =
     [(1500, RemoveFile ''/tmp/a.mp3'')]"
proof -
  have h: "Save (request_of hallo_app) ''/tmp/a.mp3'' \<in>
      set (effects_of (ok_env ''/tmp/a.mp3'' (5 / 2)) hallo_app)"
    by (simp add: hallo_effects_ok side_effects_in_order_def)
  show ?thesis
    using h deletion_delay_is_fixed [OF h] by (simp add: hallo_scheduled_ok)
qed

subsection \<open>Errors\<close>



text \<open>
  Claim C10. Once a run has reached the synthesis step (the call \<^verbatim>\<open>tts.save\<close>, the first
  statement of the \<^verbatim>\<open>try\<close>), the deletion of the scratch file is scheduled with delay
  1500 whether the run then returns or raises. When it raises (in the save, the load,
  the start of playback or the length measurement), the deletion is the only timer the
  run schedules: there is no completion callback. When it returns, the completion
  callback is scheduled before the deletion.
\<close>

theorem deletion_scheduled_on_error:
  "Save t p \<in> set (effects_of env s) \<Longrightarrow>
     (1500, RemoveFile p) \<in> set (scheduled_by env s) \<and>
     (\<forall>e. fst (text_to_speech env s) = Raised e \<longrightarrow>
          scheduled_by env s = [(1500, RemoveFile p)]) \<and>
     (fst (text_to_speech env s) = Returned \<longrightarrow>
          (\<exists>d. scheduled_by env s = [(d, DoneSpeaking), (1500, RemoveFile p)]))"
  by (auto simp add: effects_of_def scheduled_by_def run_defs
        split: option.splits sum.splits prod.splits if_splits)

theorem deletion_scheduled_on_error_witness:
  "Save (request_of hallo_app) ''/tmp/a.mp3'' \<in>
     set (effects_of (save_fails_env ''/tmp/a.mp3'') hallo_app) \<and>
   fst (text_to_speech (save_fails_env ''/tmp/a.mp3'') hallo_app) = Raised GTTSError \<and>
   scheduled_by (save_fails_env ''/tmp/a.mp3'') hallo_app = [(1500, RemoveFile ''/tmp/a.mp3'')]"
proof -
  have h: "Save (request_of hallo_app) ''/tmp/a.mp3'' \<in>
      set (effects_of (save_fails_env ''/tmp/a.mp3'') hallo_app)"
    by (simp add: hallo_effects_fail side_effects_in_order_def)
  have r: "fst (text_to_speech (save_fails_env ''/tmp/a.mp3'') hallo_app) = Raised GTTSError"
    by (simp add: hallo_save_fails)
  show ?thesis
    using h r deletion_scheduled_on_error [OF h] by simp
qed

subsection \<open>Re-entry while a request is in flight\<close>

text \<open>
  Claim C1. The claim is that no second submit can start while one is in flight. The
  button path keeps to it (\<open>click_blocked_while_disabled\<close>), but the key path does not:
  \<^verbatim>\<open>keyPressEvent\<close> calls \<^verbatim>\<open>text_to_speech\<close> directly, and the handler never looks at the
  state of the button. In \<^const>\<open>speaking_app\<close> the button is disabled and the completion
  timer of the first request is still pending; a click does nothing, yet a plain Return
  in the text field runs the handler again: a second request is built and a second
  completion timer is queued beside the first.
\<close>

theorem enter_key_submits_while_speaking:
  "disabled (button speaking_app) \<and>
   timers speaking_app = [(2500, DoneSpeaking), (1500, RemoveFile ''/tmp/a.mp3'')] \<and>
   button_click (ok_env ''/tmp/b.mp3'' 4) speaking_app = (Returned, speaking_app) \<and>
   fst (text_edit_keyPressEvent (ok_env ''/tmp/b.mp3'' 4) plain_return speaking_app) = Returned \<and>
   timers (snd (text_edit_keyPressEvent (ok_env ''/tmp/b.mp3'' 4) plain_return speaking_app)) =
     [(2500, DoneSpeaking), (1500, RemoveFile ''/tmp/a.mp3''),
      (4000, DoneSpeaking), (1500, RemoveFile ''/tmp/b.mp3'')] \<and>
   synthesis_requests
     (trace (snd (text_edit_keyPressEvent (ok_env ''/tmp/b.mp3'' 4) plain_return speaking_app))) =
     [\<lparr>gtts_text = ascii ''Hallo'', gtts_lang = ''de'', gtts_slow = True\<rparr>,
      \<lparr>gtts_text = ascii ''Hallo'', gtts_lang = ''de'', gtts_slow = True\<rparr>] \<and>
   save_calls
     (trace (snd (text_edit_keyPressEvent (ok_env ''/tmp/b.mp3'' 4) plain_return speaking_app))) =
     [(\<lparr>gtts_text = ascii ''Hallo'', gtts_lang = ''de'', gtts_slow = True\<rparr>, ''/tmp/a.mp3''),
      (\<lparr>gtts_text = ascii ''Hallo'', gtts_lang = ''de'', gtts_slow = True\<rparr>, ''/tmp/b.mp3'')]"
  by (simp add: speaking_app_eq side_effects_in_order_def synthesis_requests_def save_calls_def
      text_edit_keyPressEvent_def keyPressEvent_def Key_Return_def Key_Enter_def
      ok_env_def plain_return_def button_click_def strip_def ascii_def py_isspace_def py_int_def
      run_defs)

end
